theory Spec2Isabelle
  imports Main
begin

section \<open>Data of the lead capture form\<close>

text \<open>
  The component \<^verbatim>\<open>LeadCaptureForm\<close> (src/components/LeadCaptureForm.tsx) keeps three
  objects keyed by the field names \<^verbatim>\<open>name\<close>, \<^verbatim>\<open>email\<close> and \<^verbatim>\<open>industry\<close>: the form
  values (strings), the field states (touched/valid flags) and the body of the request.
  One record type, polymorphic in what is stored per field, serves all of them.
  Characters of a \<open>string\<close> stand for code units below 256.
\<close>

record 'a by_field =
  name :: 'a
  email :: 'a
  industry :: 'a

type_synonym form_data = "string by_field"

text \<open>\<^verbatim>\<open>{ touched: false, valid: false }\<close>\<close>

record field_state =
  touched :: bool
  valid :: bool

type_synonym field_states = "field_state by_field"

text \<open>\<^verbatim>\<open>ValidationError\<close>, as the component uses it: \<^verbatim>\<open>error.field\<close>, \<^verbatim>\<open>error.message\<close>.\<close>

record validation_error =
  field :: string
  message :: string

text \<open>
  The lead built at lines 146-151:
  \<^verbatim>\<open>{ name, email, industry, submitted_at: new Date().toISOString() }\<close>.
\<close>

record lead = "string by_field" +
  submitted_at :: string

subsection \<open>The session store\<close>

text \<open>
  Modelled from the spec: the module \<^verbatim>\<open>@/lib/lead-store\<close> (\<^verbatim>\<open>useLeadStore\<close>) is imported at
  line 8 and is not among the sources. The component takes \<^verbatim>\<open>submitted\<close>, \<^verbatim>\<open>setSubmitted\<close>,
  \<^verbatim>\<open>addLead\<close> and \<^verbatim>\<open>sessionLeads\<close> from it. The spec describes it as an in-memory,
  process-local list of the leads collected since page load, not persisted, together with
  a boolean success flag.
\<close>

record lead_store =
  submitted :: bool
  sessionLeads :: "lead list"

text \<open>
  Modelled from the spec: \<^verbatim>\<open>addLead\<close> of the absent store module appends an item to the
  session-scoped list.
\<close>

definition addLead :: "lead \<Rightarrow> lead_store \<Rightarrow> lead_store" where
  "addLead l st = st\<lparr>sessionLeads := sessionLeads st @ [l]\<rparr>"

text \<open>
  Modelled from the spec: \<^verbatim>\<open>setSubmitted\<close> of the absent store module sets the boolean
  success flag.
\<close>

definition setSubmitted :: "bool \<Rightarrow> lead_store \<Rightarrow> lead_store" where
  "setSubmitted b st = st\<lparr>submitted := b\<rparr>"

text \<open>
  Modelled from the spec: the store of the absent module right after a page load. It is
  held in memory only, so a load starts from no leads.
\<close>

definition page_load_store :: lead_store where
  "page_load_store = \<lparr>submitted = False, sessionLeads = []\<rparr>"

subsection \<open>The validation library, a parameter\<close>

text \<open>
  \<^verbatim>\<open>validateLeadForm\<close>, \<^verbatim>\<open>validateName\<close> and \<^verbatim>\<open>validateEmail\<close> are imported from
  \<^verbatim>\<open>@/lib/validation\<close> (line 6), which is not among the sources. Every function of the
  component that calls them takes them as a parameter.
\<close>

record validation_lib =
  validateLeadForm :: "form_data \<Rightarrow> validation_error list"
  validateName :: "string \<Rightarrow> bool"
  validateEmail :: "string \<Rightarrow> bool"

subsection \<open>Component state\<close>

text \<open>The four \<^verbatim>\<open>useState\<close> cells of lines 12-19 and the store of line 20.\<close>

record app_state =
  formData :: form_data
  validationErrors :: "validation_error list"
  fieldStates :: field_states
  isSubmitting :: bool
  store :: lead_store

definition empty_form :: form_data where
  "empty_form = \<lparr>name = '''', email = '''', industry = ''''\<rparr>"

definition untouched_fields :: field_states where
  "untouched_fields =
     \<lparr>name = \<lparr>touched = False, valid = False\<rparr>,
      email = \<lparr>touched = False, valid = False\<rparr>,
      industry = \<lparr>touched = False, valid = False\<rparr>\<rparr>"

definition touched_fields :: field_states where
  "touched_fields =
     \<lparr>name = \<lparr>touched = True, valid = False\<rparr>,
      email = \<lparr>touched = True, valid = False\<rparr>,
      industry = \<lparr>touched = True, valid = False\<rparr>\<rparr>"

text \<open>The state of the first render after a page load.\<close>

definition initial_state :: app_state where
  "initial_state =
     \<lparr>formData = empty_form, validationErrors = [], fieldStates = untouched_fields,
      isSubmitting = False, store = page_load_store\<rparr>"

section \<open>Field validation and input changes\<close>

text \<open>
  \<^verbatim>\<open>String.prototype.trim\<close> on code units below 256: tab, line feed, vertical tab, form
  feed, carriage return, space and no-break space are stripped from both ends.
\<close>

definition is_space :: "char \<Rightarrow> bool" where
  "is_space c = (c \<in> set [CHR 0x09, CHR 0x0A, CHR 0x0B, CHR 0x0C, CHR 0x0D, CHR 0x20, CHR 0xA0])"

definition trim :: "string \<Rightarrow> string" where
  "trim s = rev (dropWhile is_space (rev (dropWhile is_space s)))"

text \<open>
  \<^verbatim>\<open>validateField\<close> (lines 41-74): the \<^verbatim>\<open>switch\<close> on the field name; a name outside the
  three cases leaves \<^verbatim>\<open>isValid = false\<close> and \<^verbatim>\<open>errorMessage = ''\<close>.
\<close>

definition validateField :: "validation_lib \<Rightarrow> string \<Rightarrow> string \<Rightarrow> bool \<times> string" where
  "validateField V fld val =
     (if fld = ''name'' then
        (if trim val = '''' then (False, ''Name is required'')
         else if \<not> validateName V val then (False, ''Name must be at least 2 characters'')
         else (True, ''''))
      else if fld = ''email'' then
        (if trim val = '''' then (False, ''Email is required'')
         else if \<not> validateEmail V val then (False, ''Please enter a valid email address'')
         else (True, ''''))
      else if fld = ''industry'' then
        (if trim val = '''' then (False, ''Please select your industry'')
         else (True, ''''))
      else (False, ''''))"

text \<open>
  \<^verbatim>\<open>{ ...prev, [field]: v }\<close> for the three keys the objects have. For any other key the
  source adds a property that nothing reads, which leaves the record as it is.
\<close>

definition update_field :: "string \<Rightarrow> ('a \<Rightarrow> 'a) \<Rightarrow> 'a by_field \<Rightarrow> 'a by_field" where
  "update_field fld g r =
     (if fld = ''name'' then r\<lparr>name := g (name r)\<rparr>
      else if fld = ''email'' then r\<lparr>email := g (email r)\<rparr>
      else if fld = ''industry'' then r\<lparr>industry := g (industry r)\<rparr>
      else r)"

text \<open>The updater of lines 93-102: update the entry of the field in place, or append one.\<close>

definition upsert_error :: "string \<Rightarrow> string \<Rightarrow> validation_error list \<Rightarrow> validation_error list" where
  "upsert_error fld errorMessage prev =
     (case find (\<lambda>error. field error = fld) prev of
        Some existing \<Rightarrow>
          map (\<lambda>error. if field error = fld then error\<lparr>message := errorMessage\<rparr> else error) prev
      | None \<Rightarrow> prev @ [\<lparr>field = fld, message = errorMessage\<rparr>])"

text \<open>\<^verbatim>\<open>handleInputChange\<close> (lines 76-104).\<close>

definition handleInputChange :: "validation_lib \<Rightarrow> string \<Rightarrow> string \<Rightarrow> app_state \<Rightarrow> app_state" where
  "handleInputChange V fld val s =
     (let s1 = s\<lparr>formData := update_field fld (\<lambda>_. val) (formData s)\<rparr>;
          s2 = s1\<lparr>fieldStates := update_field fld (\<lambda>fs. fs\<lparr>touched := True\<rparr>) (fieldStates s1)\<rparr>;
          (isValid, errorMessage) = validateField V fld val
      in if isValid then
           s2\<lparr>validationErrors := filter (\<lambda>error. field error \<noteq> fld) (validationErrors s2)\<rparr>
         else if errorMessage \<noteq> '''' then
           s2\<lparr>validationErrors := upsert_error fld errorMessage (validationErrors s2)\<rparr>
         else s2)"

section \<open>Submitting the form\<close>

text \<open>
  What \<^verbatim>\<open>await supabase.functions.invoke(...)\<close> (line 124) can do once it settles: the
  promise resolves to an object whose \<^verbatim>\<open>error\<close> is \<^verbatim>\<open>null\<close> (\<open>None\<close>) or an error
  object (\<open>Some\<close>, truthy at line 132), or it rejects and the \<^verbatim>\<open>await\<close> throws.
\<close>

datatype invoke_outcome = Resolved "string option" | Rejected string

text \<open>
  What the surroundings supply to one run of the handler: the outcome of the call and
  the value of \<^verbatim>\<open>new Date().toISOString()\<close> read at line 150.
\<close>

record submit_env =
  outcome :: invoke_outcome
  now :: string

text \<open>
  The calls \<^verbatim>\<open>handleSubmit\<close> makes, one constructor per callee. A toast carries its title
  (the options object, with description and duration, is presentation); the title of the
  success toast ends in an emoji that is left out here.
\<close>

datatype effect =
    PreventDefault
  | SetFieldStates field_states
  | ValidateLeadForm form_data
  | SetValidationErrors "validation_error list"
  | SetIsSubmitting bool
  | Invoke string form_data
  | ConsoleError string
  | ConsoleLog string
  | ToastError string
  | ToastSuccess string
  | AddLead lead
  | SetSubmitted bool
  | SetFormData form_data

text \<open>
  \<^verbatim>\<open>handleSubmit\<close> (lines 106-188) as the sequence of its calls in program order. The
  closure reads \<^verbatim>\<open>formData\<close> of the render it belongs to, here the state \<open>s\<close>. The
  \<^verbatim>\<open>try\<close> block runs from the call to the end of the success flow; \<^verbatim>\<open>return\<close> at line 141
  leaves it early; the \<^verbatim>\<open>catch\<close> block handles a rejected call; the \<^verbatim>\<open>finally\<close> block
  runs on each of the three paths.
\<close>

definition handleSubmit_calls :: "validation_lib \<Rightarrow> submit_env \<Rightarrow> app_state \<Rightarrow> effect list" where
  "handleSubmit_calls V env s =
     (let fd = formData s;
          errors = validateLeadForm V fd
      in [PreventDefault, SetFieldStates touched_fields, ValidateLeadForm fd,
          SetValidationErrors errors] @
         (if length errors = 0 then
            [SetIsSubmitting True,
             Invoke ''send-confirmation''
               \<lparr>name = name fd, email = email fd, industry = industry fd\<rparr>] @
            (case outcome env of
               Resolved emailError \<Rightarrow>
                 (case emailError of
                    Some err \<Rightarrow>
                      [ConsoleError ''Error sending confirmation email:'',
                       ToastError ''Failed to send confirmation email'']
                  | None \<Rightarrow>
                      [ConsoleLog ''Confirmation email sent successfully'',
                       AddLead \<lparr>name = name fd, email = email fd, industry = industry fd,
                                submitted_at = now env\<rparr>,
                       ToastSuccess ''Welcome to the Innovation Community!'',
                       SetSubmitted True,
                       SetFormData empty_form,
                       SetValidationErrors [],
                       SetFieldStates untouched_fields])
             | Rejected err \<Rightarrow>
                 [ConsoleError ''Error submitting form:'',
                  ToastError ''Something went wrong'']) @
            [SetIsSubmitting False]
          else
            [ToastError ''Please fix the form errors'']))"

text \<open>What each call does to the state of the component and of the store.\<close>

fun exec_effect :: "effect \<Rightarrow> app_state \<Rightarrow> app_state" where
  "exec_effect PreventDefault s = s"
| "exec_effect (SetFieldStates fs) s = s\<lparr>fieldStates := fs\<rparr>"
| "exec_effect (ValidateLeadForm fd) s = s"
| "exec_effect (SetValidationErrors es) s = s\<lparr>validationErrors := es\<rparr>"
| "exec_effect (SetIsSubmitting b) s = s\<lparr>isSubmitting := b\<rparr>"
| "exec_effect (Invoke fn body) s = s"
| "exec_effect (ConsoleError m) s = s"
| "exec_effect (ConsoleLog m) s = s"
| "exec_effect (ToastError t) s = s"
| "exec_effect (ToastSuccess t) s = s"
| "exec_effect (AddLead l) s = s\<lparr>store := addLead l (store s)\<rparr>"
| "exec_effect (SetSubmitted b) s = s\<lparr>store := setSubmitted b (store s)\<rparr>"
| "exec_effect (SetFormData fd) s = s\<lparr>formData := fd\<rparr>"

text \<open>The state once the handler has run to its end, nothing else running in between.\<close>

definition handleSubmit :: "validation_lib \<Rightarrow> submit_env \<Rightarrow> app_state \<Rightarrow> app_state" where
  "handleSubmit V env s = fold exec_effect (handleSubmit_calls V env s) s"

text \<open>\<^verbatim>\<open>resetForm\<close> (lines 190-199).\<close>

definition resetForm :: "app_state \<Rightarrow> app_state" where
  "resetForm s =
     s\<lparr>formData := empty_form, validationErrors := [], fieldStates := untouched_fields,
       store := setSubmitted False (store s)\<rparr>"

text \<open>The effect of lines 22-24, run when the component mounts.\<close>

definition mount_effect :: "app_state \<Rightarrow> app_state" where
  "mount_effect s = s\<lparr>store := setSubmitted False (store s)\<rparr>"

section \<open>Rendering\<close>

text \<open>\<^verbatim>\<open>disabled={isSubmitting || validationErrors.length > 0}\<close> (line 410).\<close>

definition button_disabled :: "app_state \<Rightarrow> bool" where
  "button_disabled s = (isSubmitting s \<or> length (validationErrors s) > 0)"

text \<open>
  The two \<^verbatim>\<open>return\<close> statements of the component (lines 228-276 and 278-432): the
  success view shows the number of leads of the session; the form view shows the field
  values and errors, and a submit button that is disabled or not and labelled
  \<^verbatim>\<open>Sending...\<close> or not.
\<close>

datatype view =
    SuccessView nat
  | FormView form_data "validation_error list" bool bool

definition render :: "app_state \<Rightarrow> view" where
  "render s =
     (if submitted (store s) then SuccessView (length (sessionLeads (store s)))
      else FormView (formData s) (validationErrors s) (button_disabled s) (isSubmitting s))"

fun is_success_view :: "view \<Rightarrow> bool" where
  "is_success_view (SuccessView n) = True"
| "is_success_view (FormView fd es d b) = False"

fun is_form_view :: "view \<Rightarrow> bool" where
  "is_form_view (SuccessView n) = False"
| "is_form_view (FormView fd es d b) = True"

section \<open>Sessions\<close>

text \<open>
  The handler is suspended at the \<^verbatim>\<open>await\<close> of line 124, and other handlers can run
  before it resumes. Its calls up to the suspension (lines 107-130, or to the end of the
  \<^verbatim>\<open>else\<close> branch of line 181 when validation fails):
\<close>

definition handleSubmit_until_await :: "validation_lib \<Rightarrow> app_state \<Rightarrow> effect list" where
  "handleSubmit_until_await V s =
     (let fd = formData s;
          errors = validateLeadForm V fd
      in [PreventDefault, SetFieldStates touched_fields, ValidateLeadForm fd,
          SetValidationErrors errors] @
         (if length errors = 0 then
            [SetIsSubmitting True,
             Invoke ''send-confirmation''
               \<lparr>name = name fd, email = email fd, industry = industry fd\<rparr>]
          else
            [ToastError ''Please fix the form errors'']))"

text \<open>
  Its calls once the call has settled (lines 132-180), for the form values \<open>fd\<close> that the
  handler captured when it started:
\<close>

definition handleSubmit_after_await :: "form_data \<Rightarrow> submit_env \<Rightarrow> effect list" where
  "handleSubmit_after_await fd env =
     (case outcome env of
        Resolved emailError \<Rightarrow>
          (case emailError of
             Some err \<Rightarrow>
               [ConsoleError ''Error sending confirmation email:'',
                ToastError ''Failed to send confirmation email'']
           | None \<Rightarrow>
               [ConsoleLog ''Confirmation email sent successfully'',
                AddLead \<lparr>name = name fd, email = email fd, industry = industry fd,
                         submitted_at = now env\<rparr>,
                ToastSuccess ''Welcome to the Innovation Community!'',
                SetSubmitted True,
                SetFormData empty_form,
                SetValidationErrors [],
                SetFieldStates untouched_fields])
      | Rejected err \<Rightarrow>
          [ConsoleError ''Error submitting form:'',
           ToastError ''Something went wrong'']) @
     [SetIsSubmitting False]"

text \<open>
  What can happen to a mounted component: the mount effect, a change of an input, a
  submission running up to its \<^verbatim>\<open>await\<close>, a suspended submission resuming (with the form
  values it captured and with what its surroundings supply), and a click on
  \<^verbatim>\<open>Submit Another Lead\<close>. A sequence of events need not pair the two halves of a
  submission, so every interleaving the component can go through is among the sequences.
\<close>

datatype ui_event =
    Mount
  | InputChange string string
  | SubmitBegin
  | SubmitEnd form_data submit_env
  | ResetClick

fun ui_step :: "validation_lib \<Rightarrow> ui_event \<Rightarrow> app_state \<Rightarrow> app_state" where
  "ui_step V Mount s = mount_effect s"
| "ui_step V (InputChange fld val) s = handleInputChange V fld val s"
| "ui_step V SubmitBegin s = fold exec_effect (handleSubmit_until_await V s) s"
| "ui_step V (SubmitEnd fd env) s = fold exec_effect (handleSubmit_after_await fd env) s"
| "ui_step V ResetClick s = resetForm s"

definition run_ui :: "validation_lib \<Rightarrow> ui_event list \<Rightarrow> app_state \<Rightarrow> app_state" where
  "run_ui V evs s = fold (ui_step V) evs s"

text \<open>The events of one submission that nothing interrupts.\<close>

definition submission :: "validation_lib \<Rightarrow> submit_env \<Rightarrow> app_state \<Rightarrow> ui_event list" where
  "submission V env s =
     (if validateLeadForm V (formData s) = [] then [SubmitBegin, SubmitEnd (formData s) env]
      else [SubmitBegin])"

section \<open>Observing the calls of a submission\<close>

fun is_invoke :: "effect \<Rightarrow> bool" where
  "is_invoke (Invoke fn body) = True"
| "is_invoke _ = False"

fun is_add_lead :: "effect \<Rightarrow> bool" where
  "is_add_lead (AddLead l) = True"
| "is_add_lead _ = False"

fun is_set_submitted :: "effect \<Rightarrow> bool" where
  "is_set_submitted (SetSubmitted b) = True"
| "is_set_submitted _ = False"

fun is_toast :: "effect \<Rightarrow> bool" where
  "is_toast (ToastError t) = True"
| "is_toast (ToastSuccess t) = True"
| "is_toast _ = False"

text \<open>
  The four steps of a submission whose order matters: validating, calling the remote
  function, adding the lead, switching the success flag on.
\<close>

fun is_milestone :: "effect \<Rightarrow> bool" where
  "is_milestone (ValidateLeadForm fd) = True"
| "is_milestone (Invoke fn body) = True"
| "is_milestone (AddLead l) = True"
| "is_milestone (SetSubmitted b) = b"
| "is_milestone _ = False"

text \<open>Some call satisfying \<open>p\<close> is made before a later call satisfying \<open>q\<close>.\<close>

fun before :: "('a \<Rightarrow> bool) \<Rightarrow> ('a \<Rightarrow> bool) \<Rightarrow> 'a list \<Rightarrow> bool" where
  "before p q [] = False"
| "before p q (x # xs) = ((p x \<and> list_ex q xs) \<or> before p q xs)"

text \<open>The title of the error toast of a submission whose call failed (lines 136, 174).\<close>

fun failure_toast :: "invoke_outcome \<Rightarrow> string" where
  "failure_toast (Resolved emailError) = ''Failed to send confirmation email''"
| "failure_toast (Rejected err) = ''Something went wrong''"

fun is_rejected :: "invoke_outcome \<Rightarrow> bool" where
  "is_rejected (Rejected err) = True"
| "is_rejected (Resolved emailError) = False"

fun returned_error :: "invoke_outcome \<Rightarrow> bool" where
  "returned_error (Resolved (Some err)) = True"
| "returned_error _ = False"

section \<open>The life of the session store\<close>

text \<open>
  Modelled from the spec: what happens to the store of the absent module
  \<^verbatim>\<open>@/lib/lead-store\<close> over the life of a browser tab. A page load (the first one or a
  refresh) starts the process anew, and with it the in-memory store; the two setters act
  as above.
\<close>

datatype store_event =
    PageLoad
  | AddLeadCall lead
  | SetSubmittedCall bool

fun store_step :: "store_event \<Rightarrow> lead_store \<Rightarrow> lead_store" where
  "store_step PageLoad st = page_load_store"
| "store_step (AddLeadCall l) st = addLead l st"
| "store_step (SetSubmittedCall b) st = setSubmitted b st"

definition run_store :: "store_event list \<Rightarrow> lead_store \<Rightarrow> lead_store" where
  "run_store evs st = fold store_step evs st"

text \<open>The leads handed to \<^verbatim>\<open>addLead\<close> in a sequence of store events, in order.\<close>

fun collected :: "store_event list \<Rightarrow> lead list" where
  "collected [] = []"
| "collected (AddLeadCall l # evs) = l # collected evs"
| "collected (ev # evs) = collected evs"

section \<open>Concrete inputs\<close>

text \<open>
  An instance of the validation library, to run the component on concrete inputs. Its
  rules are the ones the messages of \<^verbatim>\<open>validateField\<close> state: a name of at least two
  characters, an email address with an \<^verbatim>\<open>@\<close>, an industry chosen. The theorems below hold
  for every library; only their instances at concrete inputs use this one.
\<close>

definition sample_lib :: validation_lib where
  "sample_lib =
     \<lparr>validateLeadForm = (\<lambda>fd.
        (if length (trim (name fd)) < 2
         then [\<lparr>field = ''name'', message = ''Name must be at least 2 characters''\<rparr>] else []) @
        (if CHR ''@'' \<in> set (email fd)
         then [] else [\<lparr>field = ''email'', message = ''Please enter a valid email address''\<rparr>]) @
        (if trim (industry fd) = ''''
         then [\<lparr>field = ''industry'', message = ''Please select your industry''\<rparr>] else [])),
      validateName = (\<lambda>v. 2 \<le> length (trim v)),
      validateEmail = (\<lambda>v. CHR ''@'' \<in> set v)\<rparr>"

text \<open>A visitor fills in the three fields after the component has mounted.\<close>

definition filling :: "ui_event list" where
  "filling =
     [Mount, InputChange ''name'' ''Ada'', InputChange ''email'' ''ada@example.org'',
      InputChange ''industry'' ''technology'']"

definition filled_state :: app_state where
  "filled_state =
     \<lparr>formData = \<lparr>name = ''Ada'', email = ''ada@example.org'', industry = ''technology''\<rparr>,
      validationErrors = [], fieldStates = touched_fields, isSubmitting = False,
      store = page_load_store\<rparr>"

text \<open>The call succeeds, returns an error, or throws.\<close>

definition env_ok :: submit_env where
  "env_ok = \<lparr>outcome = Resolved None, now = ''2024-05-01T10:00:00.000Z''\<rparr>"

definition env_error :: submit_env where
  "env_error = \<lparr>outcome = Resolved (Some ''FunctionsHttpError''), now = ''2024-05-01T10:00:00.000Z''\<rparr>"

definition env_throw :: submit_env where
  "env_throw = \<lparr>outcome = Rejected ''TypeError: Failed to fetch'', now = ''2024-05-01T10:00:00.000Z''\<rparr>"

text \<open>
  Two more instances of the validation library. The first lets every form pass. The
  second reports every rule a field breaks, so that an empty name is reported twice, once
  with each of the two messages \<^verbatim>\<open>validateField\<close> has for a name.
\<close>

definition lax_lib :: validation_lib where
  "lax_lib =
     \<lparr>validateLeadForm = (\<lambda>fd. []),
      validateName = (\<lambda>v. True),
      validateEmail = (\<lambda>v. True)\<rparr>"


section \<open>An invariant of sessions\<close>

text \<open>
  A field whose value is not empty has been touched, and no field is ever marked valid:
  values only enter through \<^verbatim>\<open>handleInputChange\<close>, which marks the field touched, and
  nothing in the component writes \<^verbatim>\<open>valid: true\<close>.
\<close>

definition touched_when_filled :: "app_state \<Rightarrow> bool" where
  "touched_when_filled s =
     ((name (formData s) \<noteq> '''' \<longrightarrow> touched (name (fieldStates s)))
      \<and> (email (formData s) \<noteq> '''' \<longrightarrow> touched (email (fieldStates s)))
      \<and> (industry (formData s) \<noteq> '''' \<longrightarrow> touched (industry (fieldStates s)))
      \<and> \<not> valid (name (fieldStates s))
      \<and> \<not> valid (email (fieldStates s))
      \<and> \<not> valid (industry (fieldStates s)))"

section \<open>Facts about the concrete inputs\<close>

lemma sample_accepts_filled: "validateLeadForm sample_lib (formData filled_state) = []"
  by (simp add: sample_lib_def filled_state_def trim_def is_space_def)

lemma sample_rejects_empty: "validateLeadForm sample_lib (formData initial_state) \<noteq> []"
  by (simp add: sample_lib_def initial_state_def empty_form_def trim_def)

lemma filling_reaches_filled:
  "run_ui sample_lib filling (initial_state\<lparr>store := page_load_store\<rparr>) = filled_state"
  by (simp add: run_ui_def filling_def initial_state_def filled_state_def mount_effect_def
      handleInputChange_def validateField_def sample_lib_def update_field_def trim_def
      is_space_def setSubmitted_def page_load_store_def empty_form_def untouched_fields_def
      touched_fields_def Let_def)

section \<open>What the handlers write\<close>

lemma handleInputChange_fields:
  "formData (handleInputChange V fld val s) = update_field fld (\<lambda>_. val) (formData s)"
  "fieldStates (handleInputChange V fld val s) =
     update_field fld (\<lambda>fs. fs\<lparr>touched := True\<rparr>) (fieldStates s)"
  by (simp_all add: handleInputChange_def Let_def split: prod.splits)


lemma handleSubmit_fields:
  "formData (handleSubmit V env s) =
     (if validateLeadForm V (formData s) = [] \<and> outcome env = Resolved None
      then empty_form else formData s)"
  "fieldStates (handleSubmit V env s) =
     (if validateLeadForm V (formData s) = [] \<and> outcome env = Resolved None
      then untouched_fields else touched_fields)"
  by (simp_all add: handleSubmit_def handleSubmit_calls_def Let_def
      split: invoke_outcome.splits option.splits)


lemma handleSubmit_failed_store:
  "outcome env \<noteq> Resolved None \<Longrightarrow> store (handleSubmit V env s) = store s"
  by (simp add: handleSubmit_def handleSubmit_calls_def Let_def
      split: invoke_outcome.splits option.splits)

lemma handleSubmit_passed_rest:
  "validateLeadForm V (formData s) = [] \<Longrightarrow>
   validationErrors (handleSubmit V env s) = [] \<and> \<not> isSubmitting (handleSubmit V env s)"
  by (simp add: handleSubmit_def handleSubmit_calls_def Let_def
      split: invoke_outcome.splits option.splits)

subsection \<open>The two halves of a submission\<close>

lemma handleSubmit_calls_split:
  "handleSubmit_calls V env s =
     handleSubmit_until_await V s @
     (if validateLeadForm V (formData s) = [] then handleSubmit_after_await (formData s) env
      else [])"
  by (simp add: handleSubmit_calls_def handleSubmit_until_await_def
      handleSubmit_after_await_def Let_def)

lemma until_await_writes:
  "formData (fold exec_effect (handleSubmit_until_await V s) s) = formData s"
  "fieldStates (fold exec_effect (handleSubmit_until_await V s) s) = touched_fields"
  "validationErrors (fold exec_effect (handleSubmit_until_await V s) s) =
     validateLeadForm V (formData s)"
  by (simp_all add: handleSubmit_until_await_def Let_def)

lemma after_await_writes:
  "formData (fold exec_effect (handleSubmit_after_await fd env) s) =
     (if outcome env = Resolved None then empty_form else formData s)"
  "fieldStates (fold exec_effect (handleSubmit_after_await fd env) s) =
     (if outcome env = Resolved None then untouched_fields else fieldStates s)"
  "validationErrors (fold exec_effect (handleSubmit_after_await fd env) s) =
     (if outcome env = Resolved None then [] else validationErrors s)"
  by (simp_all add: handleSubmit_after_await_def split: invoke_outcome.splits option.splits)

lemma submission_is_handleSubmit:
  "run_ui V (submission V env s) s = handleSubmit V env s"
  by (simp add: run_ui_def submission_def handleSubmit_def handleSubmit_calls_split
      handleSubmit_until_await_def Let_def)

subsection \<open>The list of validation errors\<close>





subsection \<open>Touched fields\<close>

lemma touched_when_filled_step:
  assumes "touched_when_filled s"
  shows "touched_when_filled (ui_step V ev s)"
proof (cases ev)
  case Mount
  with assms show ?thesis by (simp add: touched_when_filled_def mount_effect_def)
next
  case (InputChange fld val)
  with assms show ?thesis
    by (simp add: touched_when_filled_def handleInputChange_fields update_field_def)
next
  case SubmitBegin
  with assms show ?thesis
    by (simp add: touched_when_filled_def until_await_writes touched_fields_def)
next
  case (SubmitEnd fd env)
  with assms show ?thesis
    by (simp add: touched_when_filled_def after_await_writes empty_form_def
        untouched_fields_def)
next
  case ResetClick
  then show ?thesis
    by (simp add: touched_when_filled_def resetForm_def empty_form_def untouched_fields_def)
qed

lemma touched_when_filled_run:
  "touched_when_filled s \<Longrightarrow> touched_when_filled (run_ui V evs s)"
  unfolding run_ui_def
  by (induction evs arbitrary: s) (simp_all add: touched_when_filled_step)

lemma touched_when_filled_initial: "touched_when_filled (initial_state\<lparr>store := st\<rparr>)"
  by (simp add: touched_when_filled_def initial_state_def empty_form_def untouched_fields_def)

lemma all_filled_all_touched:
  assumes "touched_when_filled s"
    and "name (formData s) \<noteq> ''''" and "email (formData s) \<noteq> ''''"
    and "industry (formData s) \<noteq> ''''"
  shows "fieldStates s = touched_fields"
  using assms
  by (simp add: touched_when_filled_def touched_fields_def by_field.equality field_state.equality)

subsection \<open>The store between page loads\<close>

lemma fold_store_no_load:
  "PageLoad \<notin> set evs \<Longrightarrow>
   sessionLeads (fold store_step evs st) = sessionLeads st @ collected evs"
proof (induction evs arbitrary: st)
  case Nil
  then show ?case by simp
next
  case (Cons ev evs)
  then show ?case by (cases ev) (simp_all add: addLead_def setSubmitted_def)
qed

section \<open>The claims\<close>

text \<open>
  Claim C1. A submission makes a single network call: the function
  \<^verbatim>\<open>send-confirmation\<close> is invoked exactly once, with the form values as its body, when
  the form passes validation, and not at all otherwise; it is never invoked twice.
\<close>

theorem send_confirmation_once:
  "filter is_invoke (handleSubmit_calls V env s) =
     (if validateLeadForm V (formData s) = []
      then [Invoke ''send-confirmation'' (formData s)] else [])"
  by (simp add: handleSubmit_calls_def Let_def split: invoke_outcome.splits option.splits)

theorem send_confirmation_once_witness:
  "filter is_invoke (handleSubmit_calls sample_lib env_ok filled_state) =
     [Invoke ''send-confirmation''
        \<lparr>name = ''Ada'', email = ''ada@example.org'', industry = ''technology''\<rparr>]"
  using send_confirmation_once [of sample_lib env_ok filled_state] sample_accepts_filled
  by (simp add: filled_state_def)

text \<open>
  Claim C2. When the form passes validation and the call succeeds, exactly one lead is
  appended to the list of the session store: \<^verbatim>\<open>addLead\<close> is called once, and the lead
  consists of the submitted name, email and industry and of the time stamp read during
  the submission.
\<close>

theorem lead_appended_once:
  assumes "validateLeadForm V (formData s) = []" and "outcome env = Resolved None"
  shows "sessionLeads (store (handleSubmit V env s)) =
           sessionLeads (store s) @
             [\<lparr>name = name (formData s), email = email (formData s),
               industry = industry (formData s), submitted_at = now env\<rparr>]
         \<and> filter is_add_lead (handleSubmit_calls V env s) =
             [AddLead \<lparr>name = name (formData s), email = email (formData s),
                       industry = industry (formData s), submitted_at = now env\<rparr>]"
  using assms
  by (simp add: handleSubmit_def handleSubmit_calls_def Let_def addLead_def setSubmitted_def)

theorem lead_appended_once_witness:
  "validateLeadForm sample_lib (formData filled_state) = []
   \<and> outcome env_ok = Resolved None
   \<and> sessionLeads (store (handleSubmit sample_lib env_ok filled_state)) =
       [\<lparr>name = ''Ada'', email = ''ada@example.org'', industry = ''technology'',
         submitted_at = ''2024-05-01T10:00:00.000Z''\<rparr>]"
  using lead_appended_once [of sample_lib filled_state env_ok] sample_accepts_filled
  by (simp add: env_ok_def filled_state_def page_load_store_def)

text \<open>
  Claim C3. When validation yields an error, the submission stops before any remote
  effect: the function is not invoked, no lead is added, the success flag is not set (the
  store is as it was), and the errors are shown: they become the list of validation
  errors, and the one toast is the error toast asking to fix them.
\<close>

theorem invalid_submission_stops:
  assumes "validateLeadForm V (formData s) \<noteq> []"
  shows "filter is_invoke (handleSubmit_calls V env s) = []
         \<and> filter is_add_lead (handleSubmit_calls V env s) = []
         \<and> filter is_set_submitted (handleSubmit_calls V env s) = []
         \<and> store (handleSubmit V env s) = store s
         \<and> validationErrors (handleSubmit V env s) = validateLeadForm V (formData s)
         \<and> filter is_toast (handleSubmit_calls V env s) =
             [ToastError ''Please fix the form errors'']"
  using assms
  by (simp add: handleSubmit_def handleSubmit_calls_def Let_def)

theorem invalid_submission_stops_witness:
  "validateLeadForm sample_lib (formData initial_state) \<noteq> []
   \<and> filter is_invoke (handleSubmit_calls sample_lib env_ok initial_state) = []
   \<and> store (handleSubmit sample_lib env_ok initial_state) = page_load_store
   \<and> length (validationErrors (handleSubmit sample_lib env_ok initial_state)) = 3"
  using invalid_submission_stops [of sample_lib initial_state env_ok] sample_rejects_empty
  by (simp add: initial_state_def sample_lib_def empty_form_def trim_def)

text \<open>
  Claim C4. The session store holds exactly the leads added since the last page load, in
  the order they were added: whatever it held before a load, and whatever happened before
  it, is gone after it, so nothing survives a refresh.
\<close>

theorem store_holds_leads_since_load:
  assumes "PageLoad \<notin> set evs"
  shows "sessionLeads (run_store (earlier @ PageLoad # evs) st) = collected evs
         \<and> sessionLeads (run_store (earlier @ [PageLoad]) st) = []"
  using fold_store_no_load [OF assms, of page_load_store]
  by (simp add: run_store_def page_load_store_def)

theorem store_holds_leads_since_load_witness:
  "PageLoad \<notin> set [AddLeadCall \<lparr>name = ''Bob'', email = ''bob@example.org'',
                                 industry = ''retail'', submitted_at = ''t2''\<rparr>,
                    SetSubmittedCall True]
   \<and> sessionLeads (run_store
        ([AddLeadCall \<lparr>name = ''Ada'', email = ''ada@example.org'',
                       industry = ''technology'', submitted_at = ''t1''\<rparr>]
         @ PageLoad #
         [AddLeadCall \<lparr>name = ''Bob'', email = ''bob@example.org'',
                       industry = ''retail'', submitted_at = ''t2''\<rparr>,
          SetSubmittedCall True])
        page_load_store)
      = [\<lparr>name = ''Bob'', email = ''bob@example.org'', industry = ''retail'',
          submitted_at = ''t2''\<rparr>]"
  using store_holds_leads_since_load
    [of "[AddLeadCall \<lparr>name = ''Bob'', email = ''bob@example.org'',
                       industry = ''retail'', submitted_at = ''t2''\<rparr>,
          SetSubmittedCall True]"
        "[AddLeadCall \<lparr>name = ''Ada'', email = ''ada@example.org'',
                       industry = ''technology'', submitted_at = ''t1''\<rparr>]"
        page_load_store]
  by simp

text \<open>
  Claim C5. The component renders one of two views, chosen by the success flag alone:
  the success view exactly when \<^verbatim>\<open>submitted\<close> is true, the form view exactly when it is
  false, never both and never neither. The mount effect resets the flag to false, after
  which the form view is rendered.
\<close>

theorem two_state_view:
  "is_success_view (render s) = submitted (store s)
   \<and> is_form_view (render s) = (\<not> submitted (store s))
   \<and> is_form_view (render s) \<noteq> is_success_view (render s)
   \<and> \<not> submitted (store (mount_effect s))
   \<and> is_form_view (render (mount_effect s))"
  by (simp add: render_def mount_effect_def setSubmitted_def)

theorem two_state_view_witness:
  "is_success_view (render (handleSubmit sample_lib env_ok filled_state))
   \<and> is_form_view (render filled_state)
   \<and> is_form_view (render (mount_effect (handleSubmit sample_lib env_ok filled_state)))"
  using two_state_view [of "handleSubmit sample_lib env_ok filled_state"]
    two_state_view [of filled_state]
    sample_accepts_filled
  by (simp add: handleSubmit_def handleSubmit_calls_def Let_def env_ok_def filled_state_def
      page_load_store_def addLead_def setSubmitted_def)

text \<open>
  Claim C6 as it was stated, with the \<^verbatim>\<open>try\<close>/\<^verbatim>\<open>catch\<close> as the only branch that stops the
  success flow, does not hold. In the first submission below the form passes validation,
  the call is made and resolves with an error: the success flow does not proceed
  (\<^verbatim>\<open>setSubmitted(true)\<close> is not called), and yet the \<^verbatim>\<open>catch\<close> block has not run (its
  toast is not shown); the guard of line 132 has shown its own toast and returned. In the
  second submission the form is empty: the success flow does not proceed either, and the
  \<^verbatim>\<open>try\<close> statement is not even entered.
\<close>

theorem returned_error_bypasses_catch:
  "filter is_invoke (handleSubmit_calls sample_lib env_error filled_state) \<noteq> []
   \<and> \<not> (SetSubmitted True \<in> set (handleSubmit_calls sample_lib env_error filled_state)
        \<or> ToastError ''Something went wrong''
            \<in> set (handleSubmit_calls sample_lib env_error filled_state))
   \<and> ToastError ''Failed to send confirmation email''
        \<in> set (handleSubmit_calls sample_lib env_error filled_state)
   \<and> SetIsSubmitting True \<notin> set (handleSubmit_calls sample_lib env_ok initial_state)
   \<and> \<not> (SetSubmitted True \<in> set (handleSubmit_calls sample_lib env_ok initial_state)
        \<or> ToastError ''Something went wrong''
            \<in> set (handleSubmit_calls sample_lib env_ok initial_state))"
proof -
  have "validateLeadForm sample_lib (formData initial_state) \<noteq> []"
    by (rule sample_rejects_empty)
  then have "length (validateLeadForm sample_lib (formData initial_state)) \<noteq> 0"
    by simp
  with sample_accepts_filled show ?thesis
    by (simp add: handleSubmit_calls_def Let_def env_error_def)
qed

text \<open>
  Claim C6, amended. Three branches decide whether the success flow of a submission
  proceeds, and the \<^verbatim>\<open>catch\<close> block is one of them: the validation gate before the
  \<^verbatim>\<open>try\<close> block, the check of the returned error inside it (with its own toast and an
  early \<^verbatim>\<open>return\<close>), and the \<^verbatim>\<open>catch\<close> block for a call that throws. The success flow
  proceeds exactly when validation yields no error and the call resolves without an
  error; each of the three failures shows its own error toast, and only that one.
\<close>

theorem success_flow_decided_by:
  "(SetSubmitted True \<in> set (handleSubmit_calls V env s)) =
     (validateLeadForm V (formData s) = [] \<and> outcome env = Resolved None)
   \<and> (ToastError ''Failed to send confirmation email'' \<in> set (handleSubmit_calls V env s)) =
     (validateLeadForm V (formData s) = [] \<and> returned_error (outcome env))
   \<and> (ToastError ''Something went wrong'' \<in> set (handleSubmit_calls V env s)) =
     (validateLeadForm V (formData s) = [] \<and> is_rejected (outcome env))
   \<and> (ToastError ''Please fix the form errors'' \<in> set (handleSubmit_calls V env s)) =
     (validateLeadForm V (formData s) \<noteq> [])"
  by (simp add: handleSubmit_calls_def Let_def split: invoke_outcome.splits option.splits)

theorem success_flow_decided_by_witness:
  "SetSubmitted True \<in> set (handleSubmit_calls sample_lib env_ok filled_state)
   \<and> ToastError ''Failed to send confirmation email''
        \<in> set (handleSubmit_calls sample_lib env_error filled_state)
   \<and> ToastError ''Something went wrong''
        \<in> set (handleSubmit_calls sample_lib env_throw filled_state)
   \<and> ToastError ''Please fix the form errors''
        \<in> set (handleSubmit_calls sample_lib env_ok initial_state)"
  using success_flow_decided_by [of sample_lib env_ok filled_state]
    success_flow_decided_by [of sample_lib env_error filled_state]
    success_flow_decided_by [of sample_lib env_throw filled_state]
    success_flow_decided_by [of sample_lib env_ok initial_state]
    sample_accepts_filled
  by (simp add: env_ok_def env_error_def env_throw_def sample_lib_def initial_state_def
      empty_form_def trim_def)

text \<open>
  Claim C7 as it was stated, with the success flag set before the lead is added, does
  not hold. In the successful submission below no call of \<^verbatim>\<open>setSubmitted\<close> comes before
  the call of \<^verbatim>\<open>addLead\<close>; it is the other way round.
\<close>

theorem flag_not_set_before_append:
  "SetSubmitted True \<in> set (handleSubmit_calls sample_lib env_ok filled_state)
   \<and> \<not> before is_set_submitted is_add_lead (handleSubmit_calls sample_lib env_ok filled_state)
   \<and> before is_add_lead is_set_submitted (handleSubmit_calls sample_lib env_ok filled_state)"
  using sample_accepts_filled
  by (simp add: handleSubmit_calls_def Let_def env_ok_def)

text \<open>
  Claim C7, amended. On a submission that succeeds the steps come in this order, each
  exactly once: the form is validated, the remote function is called, the lead is added
  to the session list, and then the success flag is set to true.
\<close>

theorem success_order:
  assumes "validateLeadForm V (formData s) = []" and "outcome env = Resolved None"
  shows "filter is_milestone (handleSubmit_calls V env s) =
           [ValidateLeadForm (formData s),
            Invoke ''send-confirmation'' (formData s),
            AddLead \<lparr>name = name (formData s), email = email (formData s),
                     industry = industry (formData s), submitted_at = now env\<rparr>,
            SetSubmitted True]"
  using assms by (simp add: handleSubmit_calls_def Let_def)

theorem success_order_witness:
  "validateLeadForm sample_lib (formData filled_state) = []
   \<and> outcome env_ok = Resolved None
   \<and> filter is_milestone (handleSubmit_calls sample_lib env_ok filled_state) =
       [ValidateLeadForm
          \<lparr>name = ''Ada'', email = ''ada@example.org'', industry = ''technology''\<rparr>,
        Invoke ''send-confirmation''
          \<lparr>name = ''Ada'', email = ''ada@example.org'', industry = ''technology''\<rparr>,
        AddLead \<lparr>name = ''Ada'', email = ''ada@example.org'', industry = ''technology'',
                 submitted_at = ''2024-05-01T10:00:00.000Z''\<rparr>,
        SetSubmitted True]"
  using success_order [of sample_lib filled_state env_ok] sample_accepts_filled
  by (simp add: env_ok_def filled_state_def)

text \<open>
  Claim C8 as it was stated, with the field states left unchanged and the error toast as
  the only effect a visitor sees, does not hold. In the first submission below the form
  passes validation: before the call the form view shows an enabled button, and while the
  call is pending it shows the button disabled and labelled \<^verbatim>\<open>Sending...\<close>. In the second
  submission the validation library lets the untouched, empty form pass and the call
  returns an error: the handler has marked every field touched (line 110), so the field
  states are not what they were.
\<close>

theorem failed_submission_shows_more:
  "validateLeadForm sample_lib (formData filled_state) = []
   \<and> render filled_state = FormView (formData filled_state) [] False False
   \<and> render (ui_step sample_lib SubmitBegin filled_state)
       = FormView (formData filled_state) [] True True
   \<and> validateLeadForm lax_lib (formData initial_state) = []
   \<and> outcome env_error \<noteq> Resolved None
   \<and> fieldStates initial_state = untouched_fields
   \<and> fieldStates (handleSubmit lax_lib env_error initial_state) = touched_fields
   \<and> touched_fields \<noteq> untouched_fields"
proof -
  have before_call: "render filled_state = FormView (formData filled_state) [] False False"
    by (simp add: render_def filled_state_def page_load_store_def button_disabled_def)
  have pending: "render (ui_step sample_lib SubmitBegin filled_state)
                   = FormView (formData filled_state) [] True True"
    using sample_accepts_filled
    by (simp add: render_def handleSubmit_until_await_def Let_def button_disabled_def
        filled_state_def page_load_store_def)
  have lax: "validateLeadForm lax_lib (formData initial_state) = []"
    by (simp add: lax_lib_def)
  have failed: "outcome env_error \<noteq> Resolved None"
    by (simp add: env_error_def)
  have was: "fieldStates initial_state = untouched_fields"
    by (simp add: initial_state_def)
  have now_touched: "fieldStates (handleSubmit lax_lib env_error initial_state) = touched_fields"
    using lax failed by (simp add: handleSubmit_fields)
  have differ: "touched_fields \<noteq> untouched_fields"
    by (simp add: touched_fields_def untouched_fields_def)
  from sample_accepts_filled before_call pending lax failed was now_touched differ
  show ?thesis by simp
qed

text \<open>
  Claim C8, amended. If the form passes validation and the call returns an error or
  throws, the handler leaves the session store (and with it the success flag) and the
  form values as they were; it sets the field states to all touched, as it does on every
  submission, so that they are unchanged exactly when every field was touched already;
  the list of validation errors is empty and \<^verbatim>\<open>isSubmitting\<close> is false afterwards, and
  nothing else of the state is written. Its only toast is one error toast. While the call
  is pending \<^verbatim>\<open>isSubmitting\<close> is true and the submit button is disabled. In a state the
  component can be in (reached from its initial state, with any store, by any sequence of
  events) with all three fields filled in, every field is touched already and the field
  states are unchanged.
\<close>

theorem failed_submission_effects:
  assumes passes: "validateLeadForm V (formData s) = []"
    and failed: "outcome env \<noteq> Resolved None"
  shows "handleSubmit V env s =
           s\<lparr>fieldStates := touched_fields, validationErrors := [], isSubmitting := False\<rparr>
         \<and> store (handleSubmit V env s) = store s
         \<and> formData (handleSubmit V env s) = formData s
         \<and> (fieldStates (handleSubmit V env s) = fieldStates s) = (fieldStates s = touched_fields)
         \<and> filter is_toast (handleSubmit_calls V env s) =
             [ToastError (failure_toast (outcome env))]
         \<and> isSubmitting (fold exec_effect (handleSubmit_until_await V s) s)
         \<and> button_disabled (fold exec_effect (handleSubmit_until_await V s) s)
         \<and> (s = run_ui V evs (initial_state\<lparr>store := st\<rparr>)
              \<and> name (formData s) \<noteq> '''' \<and> email (formData s) \<noteq> ''''
              \<and> industry (formData s) \<noteq> ''''
              \<longrightarrow> fieldStates (handleSubmit V env s) = fieldStates s)"
proof -
  have st: "store (handleSubmit V env s) = store s"
    using failed by (rule handleSubmit_failed_store)
  have fd: "formData (handleSubmit V env s) = formData s"
    using failed by (simp add: handleSubmit_fields)
  have fs: "fieldStates (handleSubmit V env s) = touched_fields"
    using failed by (simp add: handleSubmit_fields)
  have whole: "handleSubmit V env s =
                 s\<lparr>fieldStates := touched_fields, validationErrors := [], isSubmitting := False\<rparr>"
    using st fd fs handleSubmit_passed_rest [OF passes, of env]
    by (simp add: app_state.equality)
  have same: "(fieldStates (handleSubmit V env s) = fieldStates s) = (fieldStates s = touched_fields)"
    unfolding fs by (rule eq_commute)
  have toast: "filter is_toast (handleSubmit_calls V env s) =
                 [ToastError (failure_toast (outcome env))]"
    using passes failed
    by (simp add: handleSubmit_calls_def Let_def split: invoke_outcome.splits option.splits)
  have pending: "isSubmitting (fold exec_effect (handleSubmit_until_await V s) s)"
    using passes by (simp add: handleSubmit_until_await_def Let_def)
  then have disabled: "button_disabled (fold exec_effect (handleSubmit_until_await V s) s)"
    by (simp add: button_disabled_def)
  have filled: "fieldStates (handleSubmit V env s) = fieldStates s"
    if reach: "s = run_ui V evs (initial_state\<lparr>store := st\<rparr>)"
      and "name (formData s) \<noteq> ''''" "email (formData s) \<noteq> ''''" "industry (formData s) \<noteq> ''''"
  proof -
    have "touched_when_filled s"
      unfolding reach by (rule touched_when_filled_run [OF touched_when_filled_initial])
    then have "fieldStates s = touched_fields"
      using that(2-4) by (rule all_filled_all_touched)
    with fs show ?thesis by simp
  qed
  from whole st fd same toast pending disabled filled show ?thesis by blast
qed

theorem failed_submission_effects_witness:
  "validateLeadForm sample_lib (formData filled_state) = []
   \<and> outcome env_error \<noteq> Resolved None
   \<and> filled_state = run_ui sample_lib filling (initial_state\<lparr>store := page_load_store\<rparr>)
   \<and> handleSubmit sample_lib env_error filled_state = filled_state
   \<and> filter is_toast (handleSubmit_calls sample_lib env_error filled_state)
       = [ToastError ''Failed to send confirmation email'']
   \<and> button_disabled (fold exec_effect (handleSubmit_until_await sample_lib filled_state)
        filled_state)"
proof -
  have reach:
    "filled_state = run_ui sample_lib filling (initial_state\<lparr>store := page_load_store\<rparr>)"
    by (simp add: filling_reaches_filled)
  have failed: "outcome env_error \<noteq> Resolved None"
    by (simp add: env_error_def)
  have same: "filled_state\<lparr>fieldStates := touched_fields, validationErrors := [],
                            isSubmitting := False\<rparr> = filled_state"
    by (simp add: filled_state_def)
  from failed_submission_effects
         [OF sample_accepts_filled failed, of filling page_load_store]
    reach sample_accepts_filled failed same
  show ?thesis by (simp add: env_error_def)
qed

text \<open>
  Claim C9. A run of the handler that enters the submitting phase (the form passes
  validation, \<^verbatim>\<open>setIsSubmitting(true)\<close> is called) ends with \<^verbatim>\<open>isSubmitting\<close> false on each
  of its three paths: the last call of the handler is \<^verbatim>\<open>setIsSubmitting(false)\<close> of the
  \<^verbatim>\<open>finally\<close> block. After a failed submission the submit button is not disabled.
\<close>

theorem submitting_always_reset:
  assumes "validateLeadForm V (formData s) = []"
  shows "SetIsSubmitting True \<in> set (handleSubmit_calls V env s)
         \<and> last (handleSubmit_calls V env s) = SetIsSubmitting False
         \<and> \<not> isSubmitting (handleSubmit V env s)
         \<and> (outcome env \<noteq> Resolved None \<longrightarrow> \<not> button_disabled (handleSubmit V env s))"
  using assms
  by (simp add: handleSubmit_def handleSubmit_calls_def Let_def button_disabled_def
      split: invoke_outcome.splits option.splits)

theorem submitting_always_reset_witness:
  "validateLeadForm sample_lib (formData filled_state) = []
   \<and> outcome env_throw \<noteq> Resolved None
   \<and> \<not> isSubmitting (handleSubmit sample_lib env_throw filled_state)
   \<and> \<not> button_disabled (handleSubmit sample_lib env_throw filled_state)
   \<and> \<not> isSubmitting (handleSubmit sample_lib env_error filled_state)
   \<and> \<not> isSubmitting (handleSubmit sample_lib env_ok filled_state)"
  using submitting_always_reset [of sample_lib filled_state env_throw]
    submitting_always_reset [of sample_lib filled_state env_error]
    submitting_always_reset [of sample_lib filled_state env_ok]
    sample_accepts_filled
  by (simp add: env_throw_def)




end
